theory Spec2Isabelle
  imports Complex_Main "HOL-Library.AList"
begin

section \<open>Data model of the compliance monitor\<close>

text \<open>
  The enumerations and dataclasses of \<^verbatim>\<open>compliance/monitoring/compliance_monitor.py\<close>.
  A \<^verbatim>\<open>datetime\<close> is the number of microseconds since the epoch, a \<^verbatim>\<open>timedelta\<close> a
  (possibly negative) number of microseconds. A \<^verbatim>\<open>Dict[str, Any]\<close> of evidence is an
  association list of rendered values.
\<close>

datatype ComplianceFramework = HIPAA | SOX | GDPR | ISO27001 | NIST

datatype ViolationSeverity = LOW | MEDIUM | HIGH | CRITICAL

datatype ComplianceStatus = COMPLIANT | NON_COMPLIANT | PARTIALLY_COMPLIANT | UNKNOWN

datatype py_exception =
    ValueError string | TypeError string | ZeroDivisionError | OtherException string

type_synonym datetime = int

type_synonym timedelta = int

type_synonym details = "(string \<times> string) list"

fun str_of :: "py_exception \<Rightarrow> string" where
  "str_of (ValueError m) = m"
| "str_of (TypeError m) = m"
| "str_of ZeroDivisionError = ''division by zero''"
| "str_of (OtherException m) = m"

fun framework_value :: "ComplianceFramework \<Rightarrow> string" where
  "framework_value HIPAA = ''hipaa''"
| "framework_value SOX = ''sox''"
| "framework_value GDPR = ''gdpr''"
| "framework_value ISO27001 = ''iso27001''"
| "framework_value NIST = ''nist''"

fun severity_value :: "ViolationSeverity \<Rightarrow> string" where
  "severity_value LOW = ''low''"
| "severity_value MEDIUM = ''medium''"
| "severity_value HIGH = ''high''"
| "severity_value CRITICAL = ''critical''"

text \<open>The decimal rendering of a count, as an f-string gives it.\<close>

function str_nat :: "nat \<Rightarrow> string" where
  "str_nat n =
     (if n < 10 then [''0123456789'' ! n]
      else str_nat (n div 10) @ [''0123456789'' ! (n mod 10)])"
  by pat_completeness auto
termination
  by (relation "measure id") auto

declare str_nat.simps [simp del]

definition list_ComplianceFramework :: "ComplianceFramework list" where
  "list_ComplianceFramework = [HIPAA, SOX, GDPR, ISO27001, NIST]"

definition days :: "timedelta \<Rightarrow> int" where
  "days d = d div 86400000000"


definition timedelta_seconds :: "int \<Rightarrow> timedelta" where
  "timedelta_seconds n = n * 1000000"


record ComplianceRule =
  rule_id :: string
  framework :: ComplianceFramework
  category :: string
  title :: string
  description :: string
  severity :: ViolationSeverity
  check_function :: string
  parameters :: details
  enabled :: bool
  frequency :: string

record ComplianceViolation =
  violation_id :: string
  v_rule_id :: string
  v_framework :: ComplianceFramework
  v_severity :: ViolationSeverity
  v_title :: string
  v_description :: string
  v_details :: details
  detected_at :: datetime
  resolved_at :: "datetime option"
  resolved_by :: "string option"
  v_status :: string

record AuditEvent =
  event_id :: string
  event_type :: string
  user_id :: "string option"
  resource :: string
  action :: string
  timestamp :: datetime
  source_ip :: string
  user_agent :: "string option"
  result :: string
  details :: details

record framework_results =
  fr_framework :: string
  total_rules :: nat
  compliant_rules :: nat
  fr_violations :: "ComplianceViolation list"
  fr_status :: ComplianceStatus

record compliance_results =
  r_timestamp :: datetime
  frameworks :: "(string \<times> framework_results) list"
  overall_status :: ComplianceStatus
  violations :: "ComplianceViolation list"
  recommendations :: "string list"

subsection \<open>Effects and collaborators\<close>

text \<open>
  What the monitor does to its collaborators (database, mail, chat, logger) is recorded,
  in order, in a trace. The collaborators themselves are not part of the source: whether
  one of their calls raises is read from an environment, and so are the helper methods
  that the class calls but does not define (\<^verbatim>\<open>_store_violation\<close>,
  \<^verbatim>\<open>_send_slack_notification\<close>, \<^verbatim>\<open>_generate_recommendations\<close>,
  \<^verbatim>\<open>_store_compliance_results\<close>). The clock and the generated identifiers are
  sequences of readings; the state counts how many have been taken.
\<close>

datatype effect =
    StoreViolation ComplianceViolation
  | EmailNotification ComplianceViolation
  | SlackNotification ComplianceViolation
  | LogError string
  | LogWarning string
  | LogDebug string

record environment =
  checks :: "string \<Rightarrow> (details \<Rightarrow> py_exception + bool \<times> details) option"
  utcnow_seq :: "nat \<Rightarrow> datetime"
  violation_id_seq :: "nat \<Rightarrow> string"
  store_violation_raises :: "effect list \<Rightarrow> ComplianceViolation \<Rightarrow> py_exception option"
  email_enabled :: bool
  email_raises :: "ComplianceViolation \<Rightarrow> py_exception option"
  slack_enabled :: bool
  slack_notification_raises :: "ComplianceViolation \<Rightarrow> py_exception option"
  generate_recommendations :: "compliance_results \<Rightarrow> py_exception + string list"
  store_compliance_results_raises :: "compliance_results \<Rightarrow> py_exception option"
  db_cursor_raises :: "py_exception option"
  db_insert_raises :: "AuditEvent \<Rightarrow> py_exception option"
  db_commit_raises :: "AuditEvent list \<Rightarrow> py_exception option"

record monitor =
  rules :: "(string \<times> ComplianceRule) list"
  violation_counts :: "ComplianceFramework \<Rightarrow> nat"
  audit_buffer :: "AuditEvent list"
  last_check_times :: "string \<rightharpoonup> datetime"
  audit_logs :: "AuditEvent list"
  trace :: "effect list"
  clock_reads :: nat
  ids_made :: nat

definition emit :: "effect \<Rightarrow> monitor \<Rightarrow> monitor" where
  "emit e st = st\<lparr>trace := trace st @ [e]\<rparr>"

definition utcnow :: "environment \<Rightarrow> monitor \<Rightarrow> datetime \<times> monitor" where
  "utcnow env st = (utcnow_seq env (clock_reads st), st\<lparr>clock_reads := Suc (clock_reads st)\<rparr>)"

definition generate_violation_id :: "environment \<Rightarrow> monitor \<Rightarrow> string \<times> monitor" where
  "generate_violation_id env st =
     (violation_id_seq env (ids_made st), st\<lparr>ids_made := Suc (ids_made st)\<rparr>)"

section \<open>The audit buffer and its flusher\<close>

text \<open>
  \<^verbatim>\<open>deque(maxlen=n)\<close>: an append at one end of a full deque discards an element at
  the other end; \<^verbatim>\<open>extendleft\<close> is a series of left appends.
\<close>

definition audit_buffer_maxlen :: nat where
  "audit_buffer_maxlen = 1000"

definition deque_append :: "nat \<Rightarrow> 'a \<Rightarrow> 'a list \<Rightarrow> 'a list" where
  "deque_append maxlen x d = (let d' = d @ [x] in drop (length d' - maxlen) d')"

definition deque_appendleft :: "nat \<Rightarrow> 'a \<Rightarrow> 'a list \<Rightarrow> 'a list" where
  "deque_appendleft maxlen x d = take maxlen (x # d)"

definition deque_extendleft :: "nat \<Rightarrow> 'a list \<Rightarrow> 'a list \<Rightarrow> 'a list" where
  "deque_extendleft maxlen xs d = fold (deque_appendleft maxlen) xs d"

text \<open>
  The inner loop of \<^verbatim>\<open>_audit_log_flusher\<close>: pop from the left while the buffer is not
  empty and fewer than 100 events have been collected.
\<close>

fun take_batch :: "AuditEvent list \<Rightarrow> AuditEvent list \<Rightarrow> AuditEvent list \<times> AuditEvent list" where
  "take_batch events_to_flush [] = (events_to_flush, [])"
| "take_batch events_to_flush (e # buffer) =
     (if length events_to_flush < 100 then take_batch (events_to_flush @ [e]) buffer
      else (events_to_flush, e # buffer))"

fun insert_all :: "environment \<Rightarrow> AuditEvent list \<Rightarrow> py_exception option" where
  "insert_all env [] = None"
| "insert_all env (e # es) =
     (case db_insert_raises env e of Some x \<Rightarrow> Some x | None \<Rightarrow> insert_all env es)"

text \<open>
  The body of the \<^verbatim>\<open>try\<close> of \<^verbatim>\<open>_flush_audit_events\<close>: open a cursor, insert every
  event, commit. The first call that raises ends it.
\<close>

definition flush_attempt :: "environment \<Rightarrow> AuditEvent list \<Rightarrow> py_exception option" where
  "flush_attempt env events =
     (case db_cursor_raises env of
        Some x \<Rightarrow> Some x
      | None \<Rightarrow>
          (case insert_all env events of
             Some x \<Rightarrow> Some x
           | None \<Rightarrow> db_commit_raises env events))"

text \<open>
  \<^verbatim>\<open>_flush_audit_events\<close>. The whole body is inside \<^verbatim>\<open>try ... except Exception\<close> and the
  handler only logs and re-adds the events, so both exits are normal returns.
\<close>

definition flush_audit_events :: "environment \<Rightarrow> AuditEvent list \<Rightarrow> monitor \<Rightarrow> monitor" where
  "flush_audit_events env events st =
     (case flush_attempt env events of
        None \<Rightarrow> emit (LogDebug (''Flushed '' @ str_nat (length events)
                                  @ '' audit events to database''))
                  (st\<lparr>audit_logs := audit_logs st @ events\<rparr>)
      | Some e \<Rightarrow>
          (let st1 = emit (LogError (''Failed to flush audit events: '' @ str_of e)) st
           in st1\<lparr>audit_buffer :=
                    deque_extendleft audit_buffer_maxlen (rev events) (audit_buffer st1)\<rparr>))"

text \<open>
  One iteration of the \<^verbatim>\<open>while\<close> loop of \<^verbatim>\<open>_audit_log_flusher\<close>, up to the sleep.
  Neither the batch loop nor \<^verbatim>\<open>_flush_audit_events\<close> suspends, so no other task of the
  event loop runs between the pops and the re-adding.
\<close>

definition audit_log_flusher_iteration :: "environment \<Rightarrow> monitor \<Rightarrow> monitor" where
  "audit_log_flusher_iteration env st =
     (if audit_buffer st \<noteq> [] then
        (let (events_to_flush, rest) = take_batch [] (audit_buffer st)
         in flush_audit_events env events_to_flush (st\<lparr>audit_buffer := rest\<rparr>))
      else st)"

text \<open>The buffer append of \<^verbatim>\<open>log_audit_event\<close>, for a series of incoming events.\<close>

definition buffer_events :: "AuditEvent list \<Rightarrow> monitor \<Rightarrow> monitor" where
  "buffer_events new st =
     st\<lparr>audit_buffer := fold (deque_append audit_buffer_maxlen) new (audit_buffer st)\<rparr>"

section \<open>Rule checks\<close>

text \<open>
  \<^verbatim>\<open>_execute_rule_check\<close> resolves the rule's check function by name
  (\<^verbatim>\<open>getattr(self, rule.check_function, None)\<close>), raises \<^verbatim>\<open>ValueError\<close> when there is
  none, and otherwise calls it with the rule's parameters. The registry of the
  environment says what each name resolves to; a check returns its pair or raises.
\<close>

definition execute_rule_check :: "environment \<Rightarrow> ComplianceRule \<Rightarrow> py_exception + bool \<times> details" where
  "execute_rule_check env rule =
     (case checks env (check_function rule) of
        None \<Rightarrow> Inl (ValueError (''Check function '' @ check_function rule @ '' not found''))
      | Some check \<Rightarrow> check (parameters rule))"

text \<open>
  Each of the six checks of the class has the shape
  \<^verbatim>\<open>try: <query and compare> except Exception as e: return False, {'error': str(e)}\<close>.
  The queries go to the database, so the body is a parameter here.
\<close>

definition try_check ::
  "(details \<Rightarrow> py_exception + bool \<times> details) \<Rightarrow> details \<Rightarrow> py_exception + bool \<times> details" where
  "try_check body params =
     (case body params of
        Inl e \<Rightarrow> Inr (False, [(''error'', str_of e)])
      | Inr r \<Rightarrow> Inr r)"

definition builtin_check_names :: "string list" where
  "builtin_check_names =
     [''check_encryption_at_rest'', ''check_access_logging'', ''check_user_access_reviews'',
      ''check_data_backup_encryption'', ''check_data_retention_policy'',
      ''check_consent_management'']"

text \<open>
  \<^verbatim>\<open>getattr\<close> also finds the attributes of the monitor that are not check functions.
  Used as a check, each of them raises: a data attribute is not callable (or is falsy, and
  \<^verbatim>\<open>_execute_rule_check\<close> raises its \<^verbatim>\<open>ValueError\<close>), a method does not take the
  parameters or does not return a pair. The registry gives \<^verbatim>\<open>TypeError\<close> for all of them;
  what such a method does to the monitor before it raises is not represented.
\<close>

definition other_attribute_names :: "string list" where
  "other_attribute_names =
     [''config'', ''logger'', ''db_connection'', ''redis_client'', ''rules'', ''rule_schedules'',
      ''violations'', ''violation_counts'', ''audit_buffer'', ''audit_flush_interval'',
      ''monitoring_active'', ''last_check_times'', ''notification_settings'',
      ''initialize'', ''log_audit_event'', ''check_compliance'', ''_check_framework_compliance'',
      ''_execute_rule_check'', ''_handle_violation'', ''_send_violation_notification'',
      ''_send_email_notification'', ''_generate_violation_id'', ''get_compliance_dashboard'',
      ''_load_compliance_rules'', ''shutdown'', ''_audit_log_flusher'', ''_flush_audit_events'',
      ''_cache_audit_event'', ''_check_event_compliance'', ''_check_data_access_compliance'',
      ''_continuous_monitoring'', ''_scheduled_checks'', ''_initialize_schema'']"

definition builtin_checks ::
  "(string \<Rightarrow> details \<Rightarrow> py_exception + bool \<times> details)
    \<Rightarrow> string \<Rightarrow> (details \<Rightarrow> py_exception + bool \<times> details) option" where
  "builtin_checks bodies name =
     (if name \<in> set builtin_check_names then Some (try_check (bodies name))
      else if name \<in> set other_attribute_names
      then Some (\<lambda>params. Inl (TypeError (name @ '' is not a check function'')))
      else None)"

section \<open>Violation handling\<close>

definition send_email_notification :: "environment \<Rightarrow> ComplianceViolation \<Rightarrow> monitor \<Rightarrow> monitor" where
  "send_email_notification env violation st =
     (case email_raises env violation of
        None \<Rightarrow> emit (EmailNotification violation) st
      | Some e \<Rightarrow> emit (LogError (''Failed to send email notification: '' @ str_of e)) st)"

definition send_slack_notification ::
  "environment \<Rightarrow> ComplianceViolation \<Rightarrow> monitor \<Rightarrow> py_exception option \<times> monitor" where
  "send_slack_notification env violation st =
     (case slack_notification_raises env violation of
        None \<Rightarrow> (None, emit (SlackNotification violation) st)
      | Some e \<Rightarrow> (Some e, st))"

definition send_violation_notification :: "environment \<Rightarrow> ComplianceViolation \<Rightarrow> monitor \<Rightarrow> monitor" where
  "send_violation_notification env violation st =
     (let st1 = (if email_enabled env then send_email_notification env violation st else st)
      in if slack_enabled env then
           (case send_slack_notification env violation st1 of
              (None, st2) \<Rightarrow> st2
            | (Some e, st2) \<Rightarrow>
                emit (LogError (''Failed to send violation notification: '' @ str_of e)) st2)
         else st1)"

text \<open>
  \<^verbatim>\<open>_handle_violation\<close>: store, notify for HIGH and CRITICAL, count, log. Only the store
  can raise; what it has done by then is the collaborator's business, the monitor's own
  state is untouched.
\<close>

definition handle_violation ::
  "environment \<Rightarrow> ComplianceViolation \<Rightarrow> monitor \<Rightarrow> py_exception option \<times> monitor" where
  "handle_violation env violation st =
     (case store_violation_raises env (trace st) violation of
        Some e \<Rightarrow> (Some e, st)
      | None \<Rightarrow>
          (let st1 = emit (StoreViolation violation) st;
               st2 = (if v_severity violation \<in> set [HIGH, CRITICAL]
                      then send_violation_notification env violation st1 else st1);
               st3 = st2\<lparr>violation_counts :=
                        (violation_counts st2)
                          (v_framework violation := violation_counts st2 (v_framework violation) + 1)\<rparr>
           in (None,
               emit (LogWarning (''Compliance violation detected: '' @ v_title violation
                                  @ '' ('' @ framework_value (v_framework violation) @ '', ''
                                  @ severity_value (v_severity violation) @ '')'')) st3)))"

section \<open>Framework checks\<close>

definition new_violation ::
  "string \<Rightarrow> ComplianceRule \<Rightarrow> ComplianceFramework \<Rightarrow> details \<Rightarrow> datetime \<Rightarrow> ComplianceViolation" where
  "new_violation vid rule fw violation_details now =
     \<lparr>violation_id = vid, v_rule_id = rule_id rule, v_framework = fw,
      v_severity = severity rule, v_title = title rule, v_description = description rule,
      v_details = violation_details, detected_at = now,
      resolved_at = None, resolved_by = None, v_status = ''open''\<rparr>"

text \<open>The body of the \<^verbatim>\<open>for rule in framework_rules\<close> loop of \<^verbatim>\<open>_check_framework_compliance\<close>.\<close>

definition check_rule ::
  "environment \<Rightarrow> ComplianceFramework \<Rightarrow> ComplianceRule
    \<Rightarrow> framework_results \<times> monitor \<Rightarrow> framework_results \<times> monitor" where
  "check_rule env fw rule = (\<lambda>(results, st).
     case execute_rule_check env rule of
       Inl e \<Rightarrow>
         (results, emit (LogError (''Failed to check rule '' @ rule_id rule @ '': '' @ str_of e)) st)
     | Inr (is_compliant, violation_details) \<Rightarrow>
         if is_compliant then (results\<lparr>compliant_rules := compliant_rules results + 1\<rparr>, st)
         else
           (let (vid, st1) = generate_violation_id env st;
                (now, st2) = utcnow env st1;
                violation = new_violation vid rule fw violation_details now;
                results1 = results\<lparr>fr_violations := fr_violations results @ [violation]\<rparr>
            in case handle_violation env violation st2 of
                 (None, st3) \<Rightarrow> (results1, st3)
               | (Some e, st3) \<Rightarrow>
                   (results1,
                    emit (LogError (''Failed to check rule '' @ rule_id rule @ '': '' @ str_of e)) st3)))"

definition framework_rules :: "monitor \<Rightarrow> ComplianceFramework \<Rightarrow> ComplianceRule list" where
  "framework_rules st fw = [rule \<leftarrow> map snd (rules st). framework rule = fw \<and> enabled rule]"

text \<open>
  \<^verbatim>\<open>compliant_rules / total_rules\<close> is Python's true division: it raises
  \<^verbatim>\<open>ZeroDivisionError\<close> on a zero divisor. The quotient of two ints is the correctly
  rounded float; it is kept exact here, and \<^verbatim>\<open>0.8\<close> is read as 8/10.
\<close>

definition compliance_percentage :: "nat \<Rightarrow> nat \<Rightarrow> py_exception + rat" where
  "compliance_percentage compliant n_rules =
     (if n_rules = 0 then Inl ZeroDivisionError else Inr (of_nat compliant / of_nat n_rules))"

definition status_of_percentage :: "rat \<Rightarrow> ComplianceStatus" where
  "status_of_percentage p =
     (if p = 1 then COMPLIANT
      else if p \<ge> 8 / 10 then PARTIALLY_COMPLIANT
      else NON_COMPLIANT)"

definition check_framework_compliance ::
  "environment \<Rightarrow> ComplianceFramework \<Rightarrow> monitor \<Rightarrow> (py_exception + framework_results) \<times> monitor" where
  "check_framework_compliance env fw st =
     (let results = \<lparr>fr_framework = framework_value fw,
                     total_rules = length (framework_rules st fw),
                     compliant_rules = 0,
                     fr_violations = [],
                     fr_status = COMPLIANT\<rparr>;
          (results1, st1) = fold (check_rule env fw) (framework_rules st fw) (results, st)
      in case compliance_percentage (compliant_rules results1) (total_rules results1) of
           Inl e \<Rightarrow> (Inl e, st1)
         | Inr p \<Rightarrow> (Inr (results1\<lparr>fr_status := status_of_percentage p\<rparr>), st1))"

text \<open>The body of the \<^verbatim>\<open>for fw in frameworks_to_check\<close> loop of \<^verbatim>\<open>check_compliance\<close>.\<close>

definition add_framework_results ::
  "ComplianceFramework \<Rightarrow> framework_results \<Rightarrow> compliance_results \<Rightarrow> compliance_results" where
  "add_framework_results fw fr results =
     (let r1 = results\<lparr>frameworks := AList.update (framework_value fw) fr (frameworks results)\<rparr>;
          r2 = (if fr_status fr = NON_COMPLIANT then r1\<lparr>overall_status := NON_COMPLIANT\<rparr>
                else if fr_status fr = PARTIALLY_COMPLIANT \<and> overall_status r1 = COMPLIANT
                then r1\<lparr>overall_status := PARTIALLY_COMPLIANT\<rparr>
                else r1)
      in r2\<lparr>violations := violations r2 @ fr_violations fr\<rparr>)"

fun check_frameworks ::
  "environment \<Rightarrow> ComplianceFramework list \<Rightarrow> compliance_results \<Rightarrow> monitor
    \<Rightarrow> (py_exception + compliance_results) \<times> monitor" where
  "check_frameworks env [] results st = (Inr results, st)"
| "check_frameworks env (fw # fws) results st =
     (case check_framework_compliance env fw st of
        (Inl e, st1) \<Rightarrow> (Inl e, st1)
      | (Inr fr, st1) \<Rightarrow> check_frameworks env fws (add_framework_results fw fr results) st1)"

definition frameworks_to_check :: "ComplianceFramework option \<Rightarrow> ComplianceFramework list" where
  "frameworks_to_check requested =
     (case requested of Some fw \<Rightarrow> [fw] | None \<Rightarrow> list_ComplianceFramework)"

text \<open>
  \<^verbatim>\<open>check_compliance\<close>. Its handler is \<^verbatim>\<open>except Exception as e: log; raise\<close>: whatever
  the body raises reaches the caller, after a log entry.
\<close>

definition reraise :: "py_exception \<Rightarrow> monitor \<Rightarrow> (py_exception + compliance_results) \<times> monitor" where
  "reraise e st = (Inl e, emit (LogError (''Compliance check failed: '' @ str_of e)) st)"

definition check_compliance ::
  "environment \<Rightarrow> ComplianceFramework option \<Rightarrow> monitor
    \<Rightarrow> (py_exception + compliance_results) \<times> monitor" where
  "check_compliance env requested st =
     (let (now, st0) = utcnow env st;
          results = \<lparr>r_timestamp = now, frameworks = [], overall_status = COMPLIANT,
                     violations = [], recommendations = []\<rparr>
      in case check_frameworks env (frameworks_to_check requested) results st0 of
           (Inl e, st1) \<Rightarrow> reraise e st1
         | (Inr results1, st1) \<Rightarrow>
             (case generate_recommendations env results1 of
                Inl e \<Rightarrow> reraise e st1
              | Inr recs \<Rightarrow>
                  (let results2 = results1\<lparr>recommendations := recs\<rparr>
                   in case store_compliance_results_raises env results2 of
                        Some e \<Rightarrow> reraise e st1
                      | None \<Rightarrow> (Inr results2, st1))))"

section \<open>Scheduled checks\<close>

text \<open>
  The due test of \<^verbatim>\<open>_scheduled_checks\<close>: \<^verbatim>\<open>check_due\<close> starts as False, becomes True
  when there is no last check, and is otherwise set by the branch of the rule's frequency,
  if there is one.
\<close>

definition check_due :: "ComplianceRule \<Rightarrow> datetime option \<Rightarrow> datetime \<Rightarrow> bool" where
  "check_due rule last_check current_time =
     (case last_check of
        None \<Rightarrow> True
      | Some t \<Rightarrow>
          if frequency rule = ''daily'' then days (current_time - t) \<ge> 1
          else if frequency rule = ''weekly'' then days (current_time - t) \<ge> 7
          else if frequency rule = ''monthly'' then days (current_time - t) \<ge> 30
          else False)"

text \<open>The body of the \<^verbatim>\<open>for rule in self.rules.values()\<close> loop of one scheduler cycle.\<close>

definition scheduled_rule :: "environment \<Rightarrow> datetime \<Rightarrow> ComplianceRule \<Rightarrow> monitor \<Rightarrow> monitor" where
  "scheduled_rule env current_time rule st =
     (if \<not> enabled rule then st
      else if check_due rule (last_check_times st (rule_id rule)) current_time then
        (case execute_rule_check env rule of
           Inl e \<Rightarrow>
             emit (LogError (''Failed to execute scheduled check for '' @ rule_id rule @ '': ''
                              @ str_of e)) st
         | Inr (is_compliant, violation_details) \<Rightarrow>
             (let st1 = st\<lparr>last_check_times := (last_check_times st)(rule_id rule \<mapsto> current_time)\<rparr>
              in if \<not> is_compliant then
                   (let (vid, st2) = generate_violation_id env st1;
                        violation = new_violation vid rule (framework rule) violation_details
                                      current_time
                    in case handle_violation env violation st2 of
                         (None, st3) \<Rightarrow> st3
                       | (Some e, st3) \<Rightarrow>
                           emit (LogError (''Failed to execute scheduled check for ''
                                            @ rule_id rule @ '': '' @ str_of e)) st3)
                 else st1))
      else st)"

definition scheduled_checks_cycle :: "environment \<Rightarrow> monitor \<Rightarrow> monitor" where
  "scheduled_checks_cycle env st =
     (let (current_time, st0) = utcnow env st
      in fold (scheduled_rule env current_time) (map snd (rules st0)) st0)"

section \<open>The rules loaded at start\<close>

definition ComplianceRule_default ::
  "string \<Rightarrow> ComplianceFramework \<Rightarrow> string \<Rightarrow> string \<Rightarrow> string \<Rightarrow> ViolationSeverity \<Rightarrow> string
    \<Rightarrow> ComplianceRule" where
  "ComplianceRule_default rid fw cat ttl descr sev chk =
     \<lparr>rule_id = rid, framework = fw, category = cat, title = ttl, description = descr,
      severity = sev, check_function = chk, parameters = [], enabled = True,
      frequency = ''daily''\<rparr>"

definition hipaa_rules :: "ComplianceRule list" where
  "hipaa_rules =
     [ComplianceRule_default ''hipaa_001'' HIPAA ''Technical Safeguards''
        ''Data Encryption at Rest'' ''All ePHI must be encrypted at rest'' HIGH
        ''check_encryption_at_rest'',
      ComplianceRule_default ''hipaa_002'' HIPAA ''Administrative Safeguards''
        ''Access Logging'' ''All access to ePHI must be logged'' HIGH
        ''check_access_logging'',
      ComplianceRule_default ''hipaa_003'' HIPAA ''Administrative Safeguards''
        ''User Access Reviews'' ''Regular review of user access rights'' MEDIUM
        ''check_user_access_reviews'']"

definition gdpr_rules :: "ComplianceRule list" where
  "gdpr_rules =
     [ComplianceRule_default ''gdpr_001'' GDPR ''Data Protection''
        ''Data Retention Policy'' ''Personal data must not be kept longer than necessary'' HIGH
        ''check_data_retention_policy'',
      ComplianceRule_default ''gdpr_002'' GDPR ''Consent Management''
        ''Valid Consent'' ''All data processing must have valid consent'' HIGH
        ''check_consent_management'']"

definition register_rule :: "ComplianceRule \<Rightarrow> monitor \<Rightarrow> monitor" where
  "register_rule rule st = st\<lparr>rules := AList.update (rule_id rule) rule (rules st)\<rparr>"

definition load_compliance_rules :: "monitor \<Rightarrow> monitor" where
  "load_compliance_rules st = fold register_rule (hipaa_rules @ gdpr_rules) st"

definition init_monitor :: monitor where
  "init_monitor =
     \<lparr>rules = [], violation_counts = (\<lambda>_. 0), audit_buffer = [], last_check_times = Map.empty,
      audit_logs = [], trace = [], clock_reads = 0, ids_made = 0\<rparr>"

section \<open>The security monitor\<close>

text \<open>
  The enumerations and dataclasses of
  \<^verbatim>\<open>compliance/security/tools/security-monitoring-implementation.py\<close>. Risk scores are
  Python floats built from the decimal constants of the source; they are kept as exact
  rationals.
\<close>

datatype AlertSeverity = ALERT_LOW | ALERT_MEDIUM | ALERT_HIGH | ALERT_CRITICAL



record SecurityAlert =
  alert_id :: string
  a_title :: string
  a_description :: string
  a_severity :: AlertSeverity
  event_ids :: "string list"
  created_at :: datetime
  acknowledged :: bool
  acknowledged_by :: "string option"
  acknowledged_at :: "datetime option"
  resolved :: bool
  a_resolved_by :: "string option"
  a_resolved_at :: "datetime option"

datatype sec_effect =
    StoreAlert SecurityAlert
  | EmailAlert SecurityAlert
  | SlackAlert SecurityAlert
  | SmsAlert SecurityAlert
  | SecLogError string
  | SecLogWarning string






subsection \<open>Risk scoring\<close>




subsection \<open>Alerts\<close>









text \<open>The alerts handed to \<^verbatim>\<open>_store_alert\<close> so far, in order.\<close>

fun stored_alerts :: "sec_effect list \<Rightarrow> SecurityAlert list" where
  "stored_alerts [] = []"
| "stored_alerts (StoreAlert a # es) = a # stored_alerts es"
| "stored_alerts (e # es) = stored_alerts es"

fun alert_notifications :: "sec_effect list \<Rightarrow> sec_effect list" where
  "alert_notifications [] = []"
| "alert_notifications (EmailAlert a # es) = EmailAlert a # alert_notifications es"
| "alert_notifications (SlackAlert a # es) = SlackAlert a # alert_notifications es"
| "alert_notifications (SmsAlert a # es) = SmsAlert a # alert_notifications es"
| "alert_notifications (e # es) = alert_notifications es"

section \<open>Reading results and traces\<close>

text \<open>
  What one rule contributes to a framework check, read off the outcome of its check: whether
  it counts as compliant, and the violation evidence it yields.
\<close>

definition rule_compliant :: "environment \<Rightarrow> ComplianceRule \<Rightarrow> bool" where
  "rule_compliant env rule =
     (case execute_rule_check env rule of Inr (is_compliant, d) \<Rightarrow> is_compliant | Inl e \<Rightarrow> False)"

definition reported_evidence ::
  "environment \<Rightarrow> ComplianceRule \<Rightarrow> (string \<times> ViolationSeverity \<times> details) list" where
  "reported_evidence env rule =
     (case execute_rule_check env rule of
        Inr (is_compliant, d) \<Rightarrow> if is_compliant then [] else [(rule_id rule, severity rule, d)]
      | Inl e \<Rightarrow> [])"

definition evidence_of :: "ComplianceViolation \<Rightarrow> string \<times> ViolationSeverity \<times> details" where
  "evidence_of v = (v_rule_id v, v_severity v, v_details v)"

text \<open>
  The relation between the overall entries of a result of \<^verbatim>\<open>check_compliance\<close> and its
  per-framework entries that the framework loop maintains.
\<close>

definition results_consistent :: "compliance_results \<Rightarrow> bool" where
  "results_consistent r =
     (overall_status r =
        (if NON_COMPLIANT \<in> set (map (fr_status \<circ> snd) (frameworks r)) then NON_COMPLIANT
         else if PARTIALLY_COMPLIANT \<in> set (map (fr_status \<circ> snd) (frameworks r))
         then PARTIALLY_COMPLIANT
         else COMPLIANT)
      \<and> violations r = concat (map (fr_violations \<circ> snd) (frameworks r)))"

text \<open>
  The violations handed to \<^verbatim>\<open>_store_violation\<close> and the notifications sent, as recorded in
  a trace; and the notifications that one handling of a violation sends.
\<close>

fun stored_violations :: "effect list \<Rightarrow> ComplianceViolation list" where
  "stored_violations [] = []"
| "stored_violations (StoreViolation v # es) = v # stored_violations es"
| "stored_violations (e # es) = stored_violations es"

fun notifications :: "effect list \<Rightarrow> effect list" where
  "notifications [] = []"
| "notifications (EmailNotification v # es) = EmailNotification v # notifications es"
| "notifications (SlackNotification v # es) = SlackNotification v # notifications es"
| "notifications (e # es) = notifications es"






section \<open>Example environments and inputs\<close>

text \<open>A collaborator side on which nothing raises and every built-in check is compliant.\<close>

definition quiet_env :: environment where
  "quiet_env =
     \<lparr>checks = builtin_checks (\<lambda>name params. Inr (True, [])),
      utcnow_seq = (\<lambda>n. timedelta_seconds (int n)),
      violation_id_seq = (\<lambda>n. ''viol_'' @ replicate n (CHR ''i'')),
      store_violation_raises = (\<lambda>tr v. None),
      email_enabled = True,
      email_raises = (\<lambda>v. None),
      slack_enabled = False,
      slack_notification_raises = (\<lambda>v. None),
      generate_recommendations = (\<lambda>r. Inr []),
      store_compliance_results_raises = (\<lambda>r. None),
      db_cursor_raises = None,
      db_insert_raises = (\<lambda>e. None),
      db_commit_raises = (\<lambda>es. None)\<rparr>"

definition audit_event :: "string \<Rightarrow> AuditEvent" where
  "audit_event eid =
     \<lparr>event_id = eid, event_type = ''data_access'', user_id = Some ''u1'',
      resource = ''/records/7'', action = ''read'', timestamp = 0, source_ip = ''10.0.0.1'',
      user_agent = None, result = ''success'', details = []\<rparr>"




text \<open>A database whose commit fails, and a monitor with two buffered events.\<close>

definition failing_commit_env :: environment where
  "failing_commit_env =
     quiet_env\<lparr>db_commit_raises := (\<lambda>es. Some (OtherException ''connection lost''))\<rparr>"

definition buffered_monitor :: monitor where
  "buffered_monitor = init_monitor\<lparr>audit_buffer := [audit_event ''e1'', audit_event ''e2'']\<rparr>"

text \<open>
  Two rules whose checks raise: one names a check function the monitor does not have, the
  other a check function that raises.
\<close>

definition raising_env :: environment where
  "raising_env =
     quiet_env\<lparr>checks :=
       (builtin_checks (\<lambda>name params. Inr (True, [])))
         (''check_vendor_audit'' \<mapsto> (\<lambda>params. Inl (OtherException ''timeout'')))\<rparr>"

definition rule_unknown_check :: ComplianceRule where
  "rule_unknown_check =
     ComplianceRule_default ''hipaa_900'' HIPAA ''Technical Safeguards'' ''Key Rotation''
       ''Keys must be rotated'' HIGH ''check_key_rotation''"

definition rule_raising_check :: ComplianceRule where
  "rule_raising_check =
     ComplianceRule_default ''hipaa_901'' HIPAA ''Administrative Safeguards'' ''Vendor Audit''
       ''Vendors must be audited'' CRITICAL ''check_vendor_audit''"

definition raising_monitor :: monitor where
  "raising_monitor = fold register_rule [rule_unknown_check, rule_raising_check] init_monitor"

text \<open>The rules loaded at start, with a database that refuses the encryption query.\<close>

definition db_down_env :: environment where
  "db_down_env =
     quiet_env\<lparr>checks :=
       builtin_checks (\<lambda>name params.
         if name = ''check_encryption_at_rest'' then Inl (OtherException ''connection refused'')
         else Inr (True, []))\<rparr>"

definition loaded_monitor :: monitor where
  "loaded_monitor = load_compliance_rules init_monitor"

text \<open>Ten HIPAA rules, two of which find unencrypted tables.\<close>

definition hipaa_rule :: "string \<Rightarrow> string \<Rightarrow> ComplianceRule" where
  "hipaa_rule rid chk =
     ComplianceRule_default rid HIPAA ''Technical Safeguards'' ''Safeguard'' ''Safeguard'' HIGH chk"

definition ten_rules :: "ComplianceRule list" where
  "ten_rules =
     [hipaa_rule ''r0'' ''check_access_logging'', hipaa_rule ''r1'' ''check_access_logging'',
      hipaa_rule ''r2'' ''check_access_logging'', hipaa_rule ''r3'' ''check_access_logging'',
      hipaa_rule ''r4'' ''check_encryption_at_rest'', hipaa_rule ''r5'' ''check_access_logging'',
      hipaa_rule ''r6'' ''check_access_logging'', hipaa_rule ''r7'' ''check_access_logging'',
      hipaa_rule ''r8'' ''check_encryption_at_rest'', hipaa_rule ''r9'' ''check_access_logging'']"

definition ten_rules_monitor :: monitor where
  "ten_rules_monitor = fold register_rule ten_rules init_monitor"

definition unencrypted_env :: environment where
  "unencrypted_env =
     quiet_env\<lparr>checks :=
       builtin_checks (\<lambda>name params.
         if name = ''check_encryption_at_rest''
         then Inr (False, [(''unencrypted_tables'', ''patients'')])
         else Inr (True, []))\<rparr>"















text \<open>
  Rules in all five frameworks: five for HIPAA and for NIST, one of which checks the
  encryption at rest, and one for each of the others; and a collaborator side on which the
  encryption check and the access review check fail.
\<close>

definition framework_rule :: "string \<Rightarrow> ComplianceFramework \<Rightarrow> string \<Rightarrow> ComplianceRule" where
  "framework_rule rid fw chk =
     ComplianceRule_default rid fw ''Safeguards'' ''Safeguard'' ''Safeguard'' HIGH chk"

definition all_frameworks_rules :: "ComplianceRule list" where
  "all_frameworks_rules =
     [framework_rule ''h1'' HIPAA ''check_access_logging'',
      framework_rule ''h2'' HIPAA ''check_access_logging'',
      framework_rule ''h3'' HIPAA ''check_access_logging'',
      framework_rule ''h4'' HIPAA ''check_access_logging'',
      framework_rule ''h5'' HIPAA ''check_encryption_at_rest'',
      framework_rule ''s1'' SOX ''check_user_access_reviews'',
      framework_rule ''g1'' GDPR ''check_data_retention_policy'',
      framework_rule ''i1'' ISO27001 ''check_data_backup_encryption'',
      framework_rule ''n1'' NIST ''check_access_logging'',
      framework_rule ''n2'' NIST ''check_access_logging'',
      framework_rule ''n3'' NIST ''check_access_logging'',
      framework_rule ''n4'' NIST ''check_access_logging'',
      framework_rule ''n5'' NIST ''check_encryption_at_rest'']"

definition all_frameworks_monitor :: monitor where
  "all_frameworks_monitor = fold register_rule all_frameworks_rules init_monitor"

definition overdue_reviews_env :: environment where
  "overdue_reviews_env =
     quiet_env\<lparr>checks :=
       builtin_checks (\<lambda>name params.
         if name = ''check_encryption_at_rest''
         then Inr (False, [(''unencrypted_tables'', ''patients'')])
         else if name = ''check_user_access_reviews''
         then Inr (False, [(''overdue_reviews'', ''3'')])
         else Inr (True, []))\<rparr>"

section \<open>Properties of the audit buffer\<close>

lemma take_batch_eq:
  "take_batch acc buf =
     (acc @ take (100 - length acc) buf, drop (100 - length acc) buf)"
proof (induction buf arbitrary: acc)
  case Nil
  show ?case by simp
next
  case (Cons e buf)
  show ?case
  proof (cases "length acc < 100")
    case True
    then have "100 - length acc = Suc (100 - length (acc @ [e]))" by simp
    with True Cons show ?thesis by simp
  next
    case False
    then show ?thesis by simp
  qed
qed

lemma take_batch_empty: "take_batch [] buf = (take 100 buf, drop 100 buf)"
  by (simp add: take_batch_eq)

lemma take_Cons_take: "take n (x # take n ys) = take n (x # ys)"
  by (cases n) (simp_all add: min_def)

lemma extendleft_rev:
  "length d \<le> n \<Longrightarrow> deque_extendleft n (rev xs) d = take n (xs @ d)"
proof (induction xs arbitrary: d)
  case Nil
  then show ?case
    by (simp add: deque_extendleft_def)
next
  case (Cons x xs)
  have "deque_extendleft n (rev (x # xs)) d
          = deque_appendleft n x (deque_extendleft n (rev xs) d)"
    by (simp add: deque_extendleft_def)
  also have "\<dots> = take n (x # take n (xs @ d))"
    using Cons by (simp add: deque_appendleft_def)
  also have "\<dots> = take n ((x # xs) @ d)"
    by (simp only: take_Cons_take append_Cons)
  finally show ?case .
qed

lemma fold_append_fits:
  "length d + length new \<le> n \<Longrightarrow> fold (deque_append n) new d = d @ new"
proof (induction new arbitrary: d)
  case Nil
  show ?case by simp
next
  case (Cons x new)
  then have "deque_append n x d = d @ [x]"
    by (simp add: deque_append_def)
  with Cons show ?case by simp
qed

text \<open>
  C5. When the flush of a batch fails, \<^verbatim>\<open>_flush_audit_events\<close> returns normally with
  nothing written to \<^verbatim>\<open>audit_logs\<close> and with the batch put back at the left end of the
  buffer in its original order, cut only at the capacity of 1000. For an iteration of the
  flusher on a buffer within its capacity the buffer is restored exactly, so the next
  iteration collects the same batch; and when events arrive in between without exceeding
  the capacity, the next batch still begins with the failed one.
\<close>

theorem flush_failure_requeues_batch:
  assumes fails: "flush_attempt env (take 100 (audit_buffer st)) \<noteq> None"
    and bounded: "length (audit_buffer st) \<le> audit_buffer_maxlen"
    and nonempty: "audit_buffer st \<noteq> []"
    and fits: "length (audit_buffer st) + length new \<le> audit_buffer_maxlen"
  shows "audit_buffer (audit_log_flusher_iteration env st) = audit_buffer st
       \<and> audit_logs (audit_log_flusher_iteration env st) = audit_logs st
       \<and> fst (take_batch [] (audit_buffer (audit_log_flusher_iteration env st)))
           = fst (take_batch [] (audit_buffer st))
       \<and> take (length (take 100 (audit_buffer st)))
             (fst (take_batch []
                (audit_buffer (buffer_events new (audit_log_flusher_iteration env st)))))
           = take 100 (audit_buffer st)
       \<and> (\<forall>events. flush_attempt env events \<noteq> None \<longrightarrow>
             audit_buffer (flush_audit_events env events st)
               = take audit_buffer_maxlen (events @ audit_buffer st))"
proof -
  let ?b = "audit_buffer st"
  obtain e where e: "flush_attempt env (take 100 ?b) = Some e"
    using fails by auto
  have restored: "take audit_buffer_maxlen (take 100 ?b @ drop 100 ?b) = ?b"
    using bounded by simp
  have rest_fits: "length (drop 100 ?b) \<le> audit_buffer_maxlen"
    using bounded by simp
  have buf: "audit_buffer (audit_log_flusher_iteration env st) = ?b"
    using nonempty e restored rest_fits
    by (simp add: audit_log_flusher_iteration_def take_batch_empty flush_audit_events_def
        emit_def extendleft_rev)
  have logs: "audit_logs (audit_log_flusher_iteration env st) = audit_logs st"
    using nonempty e
    by (simp add: audit_log_flusher_iteration_def take_batch_empty flush_audit_events_def
        emit_def)
  have arrivals: "audit_buffer (buffer_events new (audit_log_flusher_iteration env st))
                    = ?b @ new"
    using fits by (simp add: buffer_events_def buf fold_append_fits)
  have prefix: "take (length (take 100 ?b)) (take 100 (?b @ new)) = take 100 ?b"
    by (simp add: min_def)
  have any_batch: "\<forall>events. flush_attempt env events \<noteq> None \<longrightarrow>
      audit_buffer (flush_audit_events env events st)
        = take audit_buffer_maxlen (events @ audit_buffer st)"
    using bounded by (auto simp: flush_audit_events_def emit_def extendleft_rev)
  from buf logs arrivals prefix have
    "audit_buffer (audit_log_flusher_iteration env st) = audit_buffer st
       \<and> audit_logs (audit_log_flusher_iteration env st) = audit_logs st
       \<and> fst (take_batch [] (audit_buffer (audit_log_flusher_iteration env st)))
           = fst (take_batch [] (audit_buffer st))
       \<and> take (length (take 100 (audit_buffer st)))
             (fst (take_batch []
                (audit_buffer (buffer_events new (audit_log_flusher_iteration env st)))))
           = take 100 (audit_buffer st)"
    by (simp add: take_batch_empty)
  with any_batch show ?thesis
    by blast
qed

theorem flush_failure_requeues_batch_witness:
  "audit_buffer (audit_log_flusher_iteration failing_commit_env buffered_monitor)
     = [audit_event ''e1'', audit_event ''e2'']
   \<and> audit_logs (audit_log_flusher_iteration failing_commit_env buffered_monitor) = []
   \<and> take 2 (fst (take_batch []
        (audit_buffer (buffer_events [audit_event ''e3'']
           (audit_log_flusher_iteration failing_commit_env buffered_monitor)))))
     = [audit_event ''e1'', audit_event ''e2'']"
proof -
  have b: "audit_buffer buffered_monitor = [audit_event ''e1'', audit_event ''e2'']"
    by (simp add: buffered_monitor_def init_monitor_def)
  have l: "audit_logs buffered_monitor = []"
    by (simp add: buffered_monitor_def init_monitor_def)
  have f: "flush_attempt failing_commit_env (take 100 (audit_buffer buffered_monitor)) \<noteq> None"
    by (simp add: b flush_attempt_def failing_commit_env_def quiet_env_def)
  from flush_failure_requeues_batch
         [of failing_commit_env buffered_monitor "[audit_event ''e3'']", OF f]
  show ?thesis
    by (simp add: b l audit_buffer_maxlen_def numeral_2_eq_2)
qed

section \<open>Properties of the scheduler\<close>

text \<open>
  C6. The due test has branches for daily, weekly and monthly rules only. A rule whose
  frequency is \<^verbatim>\<open>continuous\<close> (a value the dataclass lists) and that has a recorded
  last check is never due, whatever the time of the cycle: the loop body leaves the
  monitor as it is, so the rule is not evaluated again.
\<close>

theorem continuous_rule_skipped_after_first_check:
  "check_due (rule\<lparr>frequency := ''continuous''\<rparr>) (Some t) current_time = False
   \<and> scheduled_rule env current_time (rule\<lparr>frequency := ''continuous''\<rparr>)
        (st\<lparr>last_check_times := (last_check_times st)(rule_id rule \<mapsto> t)\<rparr>)
      = st\<lparr>last_check_times := (last_check_times st)(rule_id rule \<mapsto> t)\<rparr>"
  by (simp add: check_due_def scheduled_rule_def)

lemma handle_violation_last_check_times:
  "handle_violation env v st = (r, st') \<Longrightarrow> last_check_times st' = last_check_times st"
  by (auto simp: handle_violation_def emit_def send_violation_notification_def
      send_email_notification_def send_slack_notification_def Let_def
      split: option.splits if_splits prod.splits)

section \<open>Properties of the framework check\<close>

lemma handle_violation_rules:
  "handle_violation env v st = (r, st') \<Longrightarrow> rules st' = rules st"
  by (auto simp: handle_violation_def emit_def send_violation_notification_def
      send_email_notification_def send_slack_notification_def Let_def
      split: option.splits if_splits prod.splits)

lemma check_rule_step:
  assumes "check_rule env fw rule (results, st) = (results', st')"
  shows "compliant_rules results' = compliant_rules results + (if rule_compliant env rule then 1 else 0)
       \<and> map evidence_of (fr_violations results')
           = map evidence_of (fr_violations results) @ reported_evidence env rule
       \<and> total_rules results' = total_rules results
       \<and> rules st' = rules st"
  using assms
  by (auto simp: check_rule_def rule_compliant_def reported_evidence_def evidence_of_def
      new_violation_def emit_def generate_violation_id_def utcnow_def Let_def
      split: sum.splits prod.splits option.splits if_splits
      dest!: handle_violation_rules)

lemma fold_check_rule:
  "fold (check_rule env fw) rs (results, st) = (results', st') \<Longrightarrow>
     compliant_rules results' = compliant_rules results + length (filter (rule_compliant env) rs)
   \<and> map evidence_of (fr_violations results')
       = map evidence_of (fr_violations results) @ concat (map (reported_evidence env) rs)
   \<and> total_rules results' = total_rules results
   \<and> rules st' = rules st"
proof (induction rs arbitrary: results st)
  case Nil
  then show ?case by simp
next
  case (Cons r rs)
  obtain results1 st1 where step: "check_rule env fw r (results, st) = (results1, st1)"
    by (cases "check_rule env fw r (results, st)")
  with Cons.prems have rest: "fold (check_rule env fw) rs (results1, st1) = (results', st')"
    by simp
  from check_rule_step [OF step] Cons.IH [OF rest] show ?case
    by simp
qed

lemma check_framework_compliance_returns:
  assumes "framework_rules st fw \<noteq> []"
  shows "\<exists>res st'. check_framework_compliance env fw st = (Inr res, st')
       \<and> total_rules res = length (framework_rules st fw)
       \<and> compliant_rules res = length (filter (rule_compliant env) (framework_rules st fw))
       \<and> map evidence_of (fr_violations res)
           = concat (map (reported_evidence env) (framework_rules st fw))
       \<and> fr_status res = status_of_percentage
            (of_nat (compliant_rules res) / of_nat (total_rules res))
       \<and> rules st' = rules st"
proof -
  let ?r0 = "\<lparr>fr_framework = framework_value fw,
              total_rules = length (framework_rules st fw), compliant_rules = 0,
              fr_violations = [], fr_status = COMPLIANT\<rparr>"
  obtain res1 st1 where f: "fold (check_rule env fw) (framework_rules st fw) (?r0, st) = (res1, st1)"
    by (cases "fold (check_rule env fw) (framework_rules st fw) (?r0, st)")
  from fold_check_rule [OF f] assms f show ?thesis
    by (simp add: check_framework_compliance_def compliance_percentage_def)
qed

lemma loaded_monitor_rules:
  "rules loaded_monitor = map (\<lambda>r. (rule_id r, r)) (hipaa_rules @ gdpr_rules)"
  by (simp add: loaded_monitor_def load_compliance_rules_def register_rule_def init_monitor_def
      hipaa_rules_def gdpr_rules_def ComplianceRule_default_def)

lemma loaded_framework_rules:
  "framework_rules loaded_monitor HIPAA = hipaa_rules"
  "framework_rules loaded_monitor GDPR = gdpr_rules"
  "framework_rules loaded_monitor SOX = []"
  "framework_rules loaded_monitor ISO27001 = []"
  "framework_rules loaded_monitor NIST = []"
  by (simp_all add: framework_rules_def loaded_monitor_rules hipaa_rules_def gdpr_rules_def
      ComplianceRule_default_def)

lemma raising_monitor_rules:
  "rules raising_monitor = [(''hipaa_900'', rule_unknown_check), (''hipaa_901'', rule_raising_check)]"
  by (simp add: raising_monitor_def register_rule_def init_monitor_def rule_unknown_check_def
      rule_raising_check_def ComplianceRule_default_def)

lemma raising_checks_raise:
  "execute_rule_check raising_env rule_unknown_check
     = Inl (ValueError ''Check function check_key_rotation not found'')"
  "execute_rule_check raising_env rule_raising_check = Inl (OtherException ''timeout'')"
  by (simp_all add: execute_rule_check_def raising_env_def quiet_env_def builtin_checks_def
      builtin_check_names_def other_attribute_names_def rule_unknown_check_def rule_raising_check_def
      ComplianceRule_default_def)

lemma raising_framework_rules:
  "framework_rules raising_monitor HIPAA = [rule_unknown_check, rule_raising_check]"
  by (simp add: framework_rules_def raising_monitor_rules)
     (simp add: rule_unknown_check_def rule_raising_check_def ComplianceRule_default_def)

lemma ten_framework_rules: "framework_rules ten_rules_monitor HIPAA = ten_rules"
  by (simp add: framework_rules_def ten_rules_monitor_def ten_rules_def register_rule_def
      init_monitor_def hipaa_rule_def ComplianceRule_default_def)

text \<open>
  C1, as stated, fails. With two enabled HIPAA rules, one naming a check function the
  monitor does not have (\<^verbatim>\<open>_execute_rule_check\<close> raises \<^verbatim>\<open>ValueError\<close>) and one whose
  check function raises, the framework check reports no violation at all: the handler of
  the rule loop only logs. Neither rule is counted as compliant.
\<close>

theorem raising_checks_not_reported_counterexample:
  "execute_rule_check raising_env rule_unknown_check
     = Inl (ValueError ''Check function check_key_rotation not found'')
   \<and> execute_rule_check raising_env rule_raising_check = Inl (OtherException ''timeout'')
   \<and> fst (check_framework_compliance raising_env HIPAA raising_monitor)
       = Inr \<lparr>fr_framework = ''hipaa'', total_rules = 2, compliant_rules = 0,
              fr_violations = [], fr_status = NON_COMPLIANT\<rparr>"
  by (simp add: raising_checks_raise check_framework_compliance_def raising_framework_rules
      check_rule_def compliance_percentage_def status_of_percentage_def Let_def)

text \<open>
  C1, amended. For a framework with at least one enabled rule the check returns, and its
  violations are, in rule order, exactly those of the rules whose check returned
  non-compliant, each with the rule's id and severity and the evidence the check returned
  (for the built-in checks, which catch their own failures, the evidence of a failed
  query is \<^verbatim>\<open>{'error': <message>}\<close>). A rule whose check raises out of
  \<^verbatim>\<open>_execute_rule_check\<close> yields no violation; it is never counted as compliant, since
  the compliant rules are exactly those whose check returned compliant.
\<close>

theorem check_outcomes_reported:
  assumes "framework_rules st fw \<noteq> []"
  shows "\<exists>res st'. check_framework_compliance env fw st = (Inr res, st')
       \<and> map evidence_of (fr_violations res)
           = concat (map (reported_evidence env) (framework_rules st fw))
       \<and> compliant_rules res = length (filter (rule_compliant env) (framework_rules st fw))"
  using check_framework_compliance_returns [OF assms, of env] by blast

theorem check_outcomes_reported_witness:
  "\<exists>res st'. check_framework_compliance db_down_env HIPAA loaded_monitor = (Inr res, st')
     \<and> map evidence_of (fr_violations res)
         = [(''hipaa_001'', HIGH, [(''error'', ''connection refused'')])]
     \<and> compliant_rules res = 2"
proof -
  have ne: "framework_rules loaded_monitor HIPAA \<noteq> []"
    by (simp add: loaded_framework_rules hipaa_rules_def)
  have ev: "concat (map (reported_evidence db_down_env) hipaa_rules)
              = [(''hipaa_001'', HIGH, [(''error'', ''connection refused'')])]"
    by (simp add: hipaa_rules_def reported_evidence_def execute_rule_check_def db_down_env_def
        quiet_env_def builtin_checks_def builtin_check_names_def other_attribute_names_def try_check_def
        ComplianceRule_default_def)
  have co: "length (filter (rule_compliant db_down_env) hipaa_rules) = 2"
    by (simp add: hipaa_rules_def rule_compliant_def execute_rule_check_def db_down_env_def
        quiet_env_def builtin_checks_def builtin_check_names_def other_attribute_names_def try_check_def
        ComplianceRule_default_def)
  from check_outcomes_reported [OF ne, of db_down_env] show ?thesis
    by (simp add: loaded_framework_rules ev co)
qed

lemma status_of_percentage_examples:
  "status_of_percentage (10 / 10) = COMPLIANT"
  "status_of_percentage (8 / 10) = PARTIALLY_COMPLIANT"
  "status_of_percentage (7 / 10) = NON_COMPLIANT"
  by (simp_all add: status_of_percentage_def)

text \<open>
  C2. For a framework with at least one enabled rule the check returns a result whose
  total is the number of enabled rules of the framework, whose compliant count is the
  number of those rules whose check returned compliant, and whose status follows the
  ratio of the two: 1 gives COMPLIANT, at least 8/10 (and not 1) PARTIALLY_COMPLIANT,
  anything lower NON_COMPLIANT.
\<close>

theorem framework_status_from_ratio:
  assumes "framework_rules st fw \<noteq> []"
  shows "\<exists>res st'. check_framework_compliance env fw st = (Inr res, st')
       \<and> total_rules res = length (framework_rules st fw)
       \<and> compliant_rules res = length (filter (rule_compliant env) (framework_rules st fw))
       \<and> fr_status res =
           (if (of_nat (compliant_rules res) / of_nat (total_rules res) :: rat) = 1
            then COMPLIANT
            else if (of_nat (compliant_rules res) / of_nat (total_rules res) :: rat) \<ge> 8 / 10
            then PARTIALLY_COMPLIANT
            else NON_COMPLIANT)"
  using check_framework_compliance_returns [OF assms, of env]
  by (auto simp: status_of_percentage_def)

theorem framework_status_from_ratio_witness:
  "\<exists>res st'. check_framework_compliance unencrypted_env HIPAA ten_rules_monitor = (Inr res, st')
     \<and> total_rules res = 10 \<and> compliant_rules res = 8 \<and> fr_status res = PARTIALLY_COMPLIANT"
proof -
  have ne: "framework_rules ten_rules_monitor HIPAA \<noteq> []"
    by (simp add: ten_framework_rules ten_rules_def)
  have n: "length ten_rules = 10"
    by (simp add: ten_rules_def)
  have co: "length (filter (rule_compliant unencrypted_env) ten_rules) = 8"
    by (simp add: ten_rules_def hipaa_rule_def rule_compliant_def execute_rule_check_def
        unencrypted_env_def quiet_env_def builtin_checks_def builtin_check_names_def other_attribute_names_def
        try_check_def ComplianceRule_default_def)
  from framework_status_from_ratio [OF ne, of unencrypted_env] show ?thesis
    by (auto simp: ten_framework_rules n co)
qed

section \<open>Last check times\<close>

text \<open>
  C9, as stated, fails on the exception side. After a cycle in which the checks of both
  rules raise, neither rule has a last check time.
\<close>

theorem raising_checks_cycle_counterexample:
  "execute_rule_check raising_env rule_unknown_check
     = Inl (ValueError ''Check function check_key_rotation not found'')
   \<and> execute_rule_check raising_env rule_raising_check = Inl (OtherException ''timeout'')
   \<and> last_check_times (scheduled_checks_cycle raising_env raising_monitor) ''hipaa_900'' = None
   \<and> last_check_times (scheduled_checks_cycle raising_env raising_monitor) ''hipaa_901'' = None"
  by (simp add: raising_checks_raise scheduled_checks_cycle_def utcnow_def raising_monitor_rules
      scheduled_rule_def check_due_def emit_def Let_def)
     (simp add: rule_unknown_check_def rule_raising_check_def ComplianceRule_default_def
      raising_monitor_def init_monitor_def register_rule_def)

text \<open>
  C9, amended. The loop body of a cycle writes the rule's last check time, as the
  \<^verbatim>\<open>current_time\<close> read at the start of the cycle, exactly when the rule is enabled and
  due and \<^verbatim>\<open>_execute_rule_check\<close> returns normally (whatever it reports, and whatever
  the violation handling does afterwards). When the check raises, or the rule is disabled
  or not due, the last check times are left as they were; so they are never written
  before the check has returned.
\<close>

theorem last_check_time_set_on_normal_return:
  "last_check_times (scheduled_rule env current_time rule st)
     = (if enabled rule \<and> check_due rule (last_check_times st (rule_id rule)) current_time
           \<and> \<not> isl (execute_rule_check env rule)
        then (last_check_times st)(rule_id rule \<mapsto> current_time)
        else last_check_times st)"
  by (auto simp: scheduled_rule_def emit_def generate_violation_id_def Let_def
      split: sum.splits prod.splits option.splits dest!: handle_violation_last_check_times)

theorem last_check_time_set_on_normal_return_witness:
  "last_check_times (scheduled_rule quiet_env 5 (hd hipaa_rules) init_monitor) ''hipaa_001'' = Some 5
   \<and> last_check_times (scheduled_rule raising_env 5 rule_raising_check init_monitor) = Map.empty"
proof -
  have a: "\<not> isl (execute_rule_check quiet_env (hd hipaa_rules))"
    by (simp add: hipaa_rules_def execute_rule_check_def quiet_env_def builtin_checks_def
        builtin_check_names_def other_attribute_names_def try_check_def ComplianceRule_default_def)
  have b: "isl (execute_rule_check raising_env rule_raising_check)"
    by (simp add: raising_checks_raise)
  have c: "enabled (hd hipaa_rules)" "rule_id (hd hipaa_rules) = ''hipaa_001''"
    "last_check_times init_monitor = Map.empty"
    by (simp_all add: hipaa_rules_def ComplianceRule_default_def init_monitor_def)
  show ?thesis
    using last_check_time_set_on_normal_return [of quiet_env 5 "hd hipaa_rules" init_monitor]
      last_check_time_set_on_normal_return [of raising_env 5 rule_raising_check init_monitor]
    by (simp add: a b c check_due_def)
qed

section \<open>Properties of the compliance check\<close>

lemma framework_value_inj: "framework_value a = framework_value b \<Longrightarrow> a = b"
  by (cases a; cases b) simp_all

lemma update_fresh: "k \<notin> fst ` set xs \<Longrightarrow> AList.update k v xs = xs @ [(k, v)]"
  by (induction xs) auto

lemma add_framework_results_consistent:
  assumes "results_consistent r" "framework_value fw \<notin> fst ` set (frameworks r)"
  shows "results_consistent (add_framework_results fw fr r)
       \<and> map fst (frameworks (add_framework_results fw fr r))
           = map fst (frameworks r) @ [framework_value fw]"
  using assms
  by (auto simp: results_consistent_def add_framework_results_def update_fresh Let_def)

lemma check_frameworks_consistent:
  assumes "check_frameworks env fws r st = (Inr res, st')"
    and "results_consistent r"
    and "distinct fws"
    and "framework_value ` set fws \<inter> fst ` set (frameworks r) = {}"
  shows "results_consistent res
       \<and> map fst (frameworks res) = map fst (frameworks r) @ map framework_value fws"
  using assms
proof (induction fws arbitrary: r st)
  case Nil
  then show ?case by simp
next
  case (Cons fw fws)
  from Cons.prems(1) obtain fr st1 where
    fr: "check_framework_compliance env fw st = (Inr fr, st1)"
    and rest: "check_frameworks env fws (add_framework_results fw fr r) st1 = (Inr res, st')"
    by (auto split: prod.splits sum.splits)
  have fresh: "framework_value fw \<notin> fst ` set (frameworks r)"
    using Cons.prems(4) by auto
  note step = add_framework_results_consistent [OF Cons.prems(2) fresh, of fr]
  have disj: "framework_value ` set fws \<inter> fst ` set (frameworks (add_framework_results fw fr r)) = {}"
  proof -
    have "fst ` set (frameworks (add_framework_results fw fr r))
            = set (map fst (frameworks r) @ [framework_value fw])"
      using step by (metis set_map)
    moreover have "framework_value fw \<notin> framework_value ` set fws"
      using Cons.prems(3) by (auto dest: framework_value_inj)
    ultimately show ?thesis
      using Cons.prems(4) by auto
  qed
  from Cons.IH [OF rest _ _ disj] step Cons.prems(3) show ?case
    by simp
qed

lemma distinct_frameworks_to_check: "distinct (frameworks_to_check requested)"
  by (cases requested) (simp_all add: frameworks_to_check_def list_ComplianceFramework_def)


lemma framework_rules_clock [simp]:
  "framework_rules (st\<lparr>clock_reads := n\<rparr>) fw = framework_rules st fw"
  by (simp add: framework_rules_def)

lemma all_frameworks_monitor_rules:
  "rules all_frameworks_monitor = map (\<lambda>r. (rule_id r, r)) all_frameworks_rules"
  by (simp add: all_frameworks_monitor_def all_frameworks_rules_def register_rule_def
      init_monitor_def framework_rule_def ComplianceRule_default_def)

lemma all_frameworks_checked:
  "\<exists>res. fst (check_compliance overdue_reviews_env None all_frameworks_monitor) = Inr res
     \<and> map (fr_status \<circ> snd) (frameworks res)
         = [PARTIALLY_COMPLIANT, NON_COMPLIANT, COMPLIANT, COMPLIANT, PARTIALLY_COMPLIANT]
     \<and> map v_rule_id (concat (map (fr_violations \<circ> snd) (frameworks res)))
         = [''h5'', ''s1'', ''n5'']"
  "\<exists>res. fst (check_compliance unencrypted_env None all_frameworks_monitor) = Inr res
     \<and> map (fr_status \<circ> snd) (frameworks res)
         = [PARTIALLY_COMPLIANT, COMPLIANT, COMPLIANT, COMPLIANT, PARTIALLY_COMPLIANT]
     \<and> map v_rule_id (concat (map (fr_violations \<circ> snd) (frameworks res)))
         = [''h5'', ''n5'']"
  by (simp_all add: check_compliance_def utcnow_def frameworks_to_check_def
      list_ComplianceFramework_def framework_rules_def all_frameworks_monitor_rules
      all_frameworks_rules_def framework_rule_def
      check_framework_compliance_def compliance_percentage_def
      status_of_percentage_def ComplianceRule_default_def
      check_rule_def execute_rule_check_def overdue_reviews_env_def unencrypted_env_def
      quiet_env_def builtin_checks_def
      builtin_check_names_def other_attribute_names_def try_check_def generate_violation_id_def
      new_violation_def
      handle_violation_def send_violation_notification_def send_email_notification_def
      emit_def add_framework_results_def reraise_def Let_def)

text \<open>
  C10. Whenever \<^verbatim>\<open>check_compliance\<close> returns, the frameworks of the result are the
  requested one, or all five in the order of the enumeration; the overall status is
  NON_COMPLIANT if one of their statuses is, otherwise PARTIALLY_COMPLIANT if one of them
  is, otherwise COMPLIANT; and the violations are those of the frameworks, concatenated
  in that order.
\<close>

theorem overall_status_aggregates:
  assumes "check_compliance env requested st = (Inr res, st')"
  shows "overall_status res =
           (if NON_COMPLIANT \<in> set (map (fr_status \<circ> snd) (frameworks res)) then NON_COMPLIANT
            else if PARTIALLY_COMPLIANT \<in> set (map (fr_status \<circ> snd) (frameworks res))
            then PARTIALLY_COMPLIANT
            else COMPLIANT)
       \<and> violations res = concat (map (fr_violations \<circ> snd) (frameworks res))
       \<and> map fst (frameworks res) = map framework_value (frameworks_to_check requested)"
proof -
  let ?r0 = "\<lparr>r_timestamp = utcnow_seq env (clock_reads st), frameworks = [],
              overall_status = COMPLIANT, violations = [], recommendations = []\<rparr>"
  let ?st0 = "st\<lparr>clock_reads := Suc (clock_reads st)\<rparr>"
  from assms obtain r1 st1 recs where
    loop: "check_frameworks env (frameworks_to_check requested) ?r0 ?st0 = (Inr r1, st1)"
    and res: "res = r1\<lparr>recommendations := recs\<rparr>"
    by (auto simp: check_compliance_def utcnow_def reraise_def Let_def
        split: prod.splits sum.splits option.splits)
  have c0: "results_consistent ?r0"
    by (simp add: results_consistent_def)
  from check_frameworks_consistent [OF loop c0 distinct_frameworks_to_check]
  show ?thesis
    by (simp add: res results_consistent_def)
qed

theorem overall_status_aggregates_witness:
  "(\<exists>res st'. check_compliance overdue_reviews_env None all_frameworks_monitor = (Inr res, st')
      \<and> map (fr_status \<circ> snd) (frameworks res)
          = [PARTIALLY_COMPLIANT, NON_COMPLIANT, COMPLIANT, COMPLIANT, PARTIALLY_COMPLIANT]
      \<and> overall_status res = NON_COMPLIANT
      \<and> map v_rule_id (violations res) = [''h5'', ''s1'', ''n5'']
      \<and> map fst (frameworks res) = [''hipaa'', ''sox'', ''gdpr'', ''iso27001'', ''nist''])
   \<and> (\<exists>res st'. check_compliance unencrypted_env None all_frameworks_monitor = (Inr res, st')
      \<and> map (fr_status \<circ> snd) (frameworks res)
          = [PARTIALLY_COMPLIANT, COMPLIANT, COMPLIANT, COMPLIANT, PARTIALLY_COMPLIANT]
      \<and> overall_status res = PARTIALLY_COMPLIANT
      \<and> map v_rule_id (violations res) = [''h5'', ''n5'']
      \<and> map fst (frameworks res) = [''hipaa'', ''sox'', ''gdpr'', ''iso27001'', ''nist''])"
proof -
  from all_frameworks_checked(1) obtain res where
    all: "fst (check_compliance overdue_reviews_env None all_frameworks_monitor) = Inr res
     \<and> map (fr_status \<circ> snd) (frameworks res)
         = [PARTIALLY_COMPLIANT, NON_COMPLIANT, COMPLIANT, COMPLIANT, PARTIALLY_COMPLIANT]
     \<and> map v_rule_id (concat (map (fr_violations \<circ> snd) (frameworks res)))
         = [''h5'', ''s1'', ''n5'']" ..
  note r = all [THEN conjunct1]
  note s = all [THEN conjunct2, THEN conjunct1]
  note v = all [THEN conjunct2, THEN conjunct2]
  have eq: "check_compliance overdue_reviews_env None all_frameworks_monitor
              = (Inr res, snd (check_compliance overdue_reviews_env None all_frameworks_monitor))"
    using r by (cases "check_compliance overdue_reviews_env None all_frameworks_monitor") simp
  from overall_status_aggregates [OF eq] s v have props:
    "overall_status res = NON_COMPLIANT
     \<and> map v_rule_id (violations res) = [''h5'', ''s1'', ''n5'']
     \<and> map fst (frameworks res) = [''hipaa'', ''sox'', ''gdpr'', ''iso27001'', ''nist'']"
    by (simp add: frameworks_to_check_def list_ComplianceFramework_def)
  have first: "\<exists>res st'.
        check_compliance overdue_reviews_env None all_frameworks_monitor = (Inr res, st')
      \<and> map (fr_status \<circ> snd) (frameworks res)
          = [PARTIALLY_COMPLIANT, NON_COMPLIANT, COMPLIANT, COMPLIANT, PARTIALLY_COMPLIANT]
      \<and> overall_status res = NON_COMPLIANT
      \<and> map v_rule_id (violations res) = [''h5'', ''s1'', ''n5'']
      \<and> map fst (frameworks res) = [''hipaa'', ''sox'', ''gdpr'', ''iso27001'', ''nist'']"
  proof (intro exI conjI)
    show "check_compliance overdue_reviews_env None all_frameworks_monitor
            = (Inr res, snd (check_compliance overdue_reviews_env None all_frameworks_monitor))"
      by (rule eq)
    show "map (fr_status \<circ> snd) (frameworks res)
          = [PARTIALLY_COMPLIANT, NON_COMPLIANT, COMPLIANT, COMPLIANT, PARTIALLY_COMPLIANT]"
      by (rule s)
    show "overall_status res = NON_COMPLIANT"
      using props by simp
    show "map v_rule_id (violations res) = [''h5'', ''s1'', ''n5'']"
      using props by simp
    show "map fst (frameworks res) = [''hipaa'', ''sox'', ''gdpr'', ''iso27001'', ''nist'']"
      using props by simp
  qed
  from all_frameworks_checked(2) obtain res2 where
    all2: "fst (check_compliance unencrypted_env None all_frameworks_monitor) = Inr res2
     \<and> map (fr_status \<circ> snd) (frameworks res2)
         = [PARTIALLY_COMPLIANT, COMPLIANT, COMPLIANT, COMPLIANT, PARTIALLY_COMPLIANT]
     \<and> map v_rule_id (concat (map (fr_violations \<circ> snd) (frameworks res2)))
         = [''h5'', ''n5'']" ..
  note r2 = all2 [THEN conjunct1]
  note s2 = all2 [THEN conjunct2, THEN conjunct1]
  note v2 = all2 [THEN conjunct2, THEN conjunct2]
  have eq2: "check_compliance unencrypted_env None all_frameworks_monitor
              = (Inr res2, snd (check_compliance unencrypted_env None all_frameworks_monitor))"
    using r2 by (cases "check_compliance unencrypted_env None all_frameworks_monitor") simp
  from overall_status_aggregates [OF eq2] s2 v2 have props2:
    "overall_status res2 = PARTIALLY_COMPLIANT
     \<and> map v_rule_id (violations res2) = [''h5'', ''n5'']
     \<and> map fst (frameworks res2) = [''hipaa'', ''sox'', ''gdpr'', ''iso27001'', ''nist'']"
    by (simp add: frameworks_to_check_def list_ComplianceFramework_def)
  have second: "\<exists>res st'.
        check_compliance unencrypted_env None all_frameworks_monitor = (Inr res, st')
      \<and> map (fr_status \<circ> snd) (frameworks res)
          = [PARTIALLY_COMPLIANT, COMPLIANT, COMPLIANT, COMPLIANT, PARTIALLY_COMPLIANT]
      \<and> overall_status res = PARTIALLY_COMPLIANT
      \<and> map v_rule_id (violations res) = [''h5'', ''n5'']
      \<and> map fst (frameworks res) = [''hipaa'', ''sox'', ''gdpr'', ''iso27001'', ''nist'']"
  proof (intro exI conjI)
    show "check_compliance unencrypted_env None all_frameworks_monitor
            = (Inr res2, snd (check_compliance unencrypted_env None all_frameworks_monitor))"
      by (rule eq2)
    show "map (fr_status \<circ> snd) (frameworks res2)
          = [PARTIALLY_COMPLIANT, COMPLIANT, COMPLIANT, COMPLIANT, PARTIALLY_COMPLIANT]"
      by (rule s2)
    show "overall_status res2 = PARTIALLY_COMPLIANT"
      using props2 by simp
    show "map v_rule_id (violations res2) = [''h5'', ''n5'']"
      using props2 by simp
    show "map fst (frameworks res2) = [''hipaa'', ''sox'', ''gdpr'', ''iso27001'', ''nist'']"
      using props2 by simp
  qed
  from first second show ?thesis
    by (rule conjI)
qed









section \<open>Properties of violation handling\<close>

lemma stored_violations_append [simp]:
  "stored_violations (xs @ ys) = stored_violations xs @ stored_violations ys"
  by (induction xs rule: stored_violations.induct) simp_all

lemma notifications_append [simp]:
  "notifications (xs @ ys) = notifications xs @ notifications ys"
  by (induction xs rule: notifications.induct) simp_all





section \<open>Properties of the risk score\<close>








section \<open>Properties of alert suppression\<close>

lemma stored_alerts_append [simp]:
  "stored_alerts (xs @ ys) = stored_alerts xs @ stored_alerts ys"
  by (induction xs rule: stored_alerts.induct) simp_all

lemma alert_notifications_append [simp]:
  "alert_notifications (xs @ ys) = alert_notifications xs @ alert_notifications ys"
  by (induction xs rule: alert_notifications.induct) simp_all












end
